theory Spec2Isabelle
  imports Complex_Main "HOL-Library.Multiset"
begin

section \<open>The per-read median background subtraction of \<open>nonlinear_bkg.ipynb\<close>\<close>

text \<open>
  The notebook's one piece of array arithmetic is the cell that removes the median
  background per read from the IMA file:
  \<^verbatim>\<open>
  stats_region =[[5,1014], [5,1014]]
  slx = slice(stats_region[0][0], stats_region[0][1])
  sly = slice(stats_region[1][0], stats_region[1][1])
  total_countrate = np.median(ima['SCI',1].data[sly, slx])
  for i in range(ima[0].header['NSAMP'] -1):
      med = np.median(ima['SCI',i+1].data[sly, slx])
      ima['SCI',i+1].data += total_countrate - med
      print('%s, [SCI,%d], median_bkg: %.2f' %(raw_file, i+1, med))
  \<close>
  The development below embeds that cell: the pixel values, Python's slices, numpy's
  median, the in-place addition of a scalar to an array, and the loop with its printed
  lines. The two statements that follow the loop in the cell, which set the header keyword
  \<open>CRCORR\<close> and flush the file, read and write no science data and are left out.
\<close>

subsection \<open>Pixel values and their arithmetic\<close>

text \<open>
  The pixels are IEEE floating-point numbers: a real number of the format, one of the two
  infinities, or NaN. Signed zeros and NaN payloads are not told apart.

  An IEEE addition, subtraction or division yields the exact result rounded into the
  format. The rounding, which also says which results overflow to an infinity, belongs to
  the format of the array and not to the cell; it is a parameter \<open>rnd\<close> of everything
  below. The operations on infinities and NaN are those of the standard.
\<close>

datatype fval = Fin real | PInf | NInf | NaN

type_synonym rounding = "real \<Rightarrow> fval"

fun fadd :: "rounding \<Rightarrow> fval \<Rightarrow> fval \<Rightarrow> fval" where
  "fadd rnd (Fin a) (Fin b) = rnd (a + b)"
| "fadd rnd NaN _ = NaN"
| "fadd rnd _ NaN = NaN"
| "fadd rnd PInf NInf = NaN"
| "fadd rnd NInf PInf = NaN"
| "fadd rnd PInf _ = PInf"
| "fadd rnd _ PInf = PInf"
| "fadd rnd NInf _ = NInf"
| "fadd rnd _ NInf = NInf"

fun fsub :: "rounding \<Rightarrow> fval \<Rightarrow> fval \<Rightarrow> fval" where
  "fsub rnd (Fin a) (Fin b) = rnd (a - b)"
| "fsub rnd NaN _ = NaN"
| "fsub rnd _ NaN = NaN"
| "fsub rnd PInf PInf = NaN"
| "fsub rnd NInf NInf = NaN"
| "fsub rnd PInf _ = PInf"
| "fsub rnd _ PInf = NInf"
| "fsub rnd NInf _ = NInf"
| "fsub rnd _ NInf = PInf"

text \<open>Division by two, for the mean of two values.\<close>

fun fhalf :: "rounding \<Rightarrow> fval \<Rightarrow> fval" where
  "fhalf rnd (Fin s) = rnd (s / 2)"
| "fhalf rnd v = v"

subsection \<open>The rounding of single precision\<close>

text \<open>
  The science arrays of an IMA file are single-precision arrays, and numpy keeps single
  precision in the median, in the difference of two medians and in the in-place
  addition. The rounding of IEEE binary32, to nearest with ties to the even significand:
  24 significant bits, least exponent \<open>-126\<close> (below it the spacing stays
  \<open>2 ^ -149\<close>), and a rounded magnitude of \<open>2 ^ 128\<close> or more is an infinity.
\<close>

definition round_half_even :: "real \<Rightarrow> int" where
  "round_half_even x =
     (let f = \<lfloor>x\<rfloor>; d = x - of_int f
      in if d < 1 / 2 then f else if 1 / 2 < d then f + 1 else if even f then f else f + 1)"

text \<open>\<open>ilog2 n\<close> is the floor of the binary logarithm of \<open>n \<ge> 1\<close>.\<close>

function ilog2 :: "int \<Rightarrow> int" where
  "ilog2 n = (if n < 2 then 0 else 1 + ilog2 (n div 2))"
  by pat_completeness auto
termination
  by (relation "measure nat") auto

text \<open>The floor of the binary logarithm of \<open>\<bar>x\<bar>\<close>, for \<open>x \<noteq> 0\<close>.\<close>

definition binary_exponent :: "real \<Rightarrow> int" where
  "binary_exponent x =
     (if 1 \<le> \<bar>x\<bar> then ilog2 \<lfloor>\<bar>x\<bar>\<rfloor>
      else - (1 + ilog2 (\<lceil>1 / \<bar>x\<bar>\<rceil> - 1)))"

definition pow2 :: "int \<Rightarrow> real" where
  "pow2 e = (if 0 \<le> e then 2 ^ nat e else 1 / 2 ^ nat (- e))"

definition round_binary32 :: rounding where
  "round_binary32 x =
     (if x = 0 then Fin 0
      else let e = max (binary_exponent x) (- 126);
               q = pow2 (e - 23);
               y = of_int (round_half_even (x / q)) * q
           in if pow2 128 \<le> \<bar>y\<bar> then (if 0 < x then PInf else NInf) else Fin y)"

text \<open>
  Two notions that some of the statements below need: a real number is exact when it
  rounds to itself, and a pixel value is representable when it is not a real number that
  rounding would change, as is every value stored in an array of the format.
\<close>

definition exact :: "rounding \<Rightarrow> real \<Rightarrow> bool" where
  "exact rnd r \<longleftrightarrow> rnd r = Fin r"

fun representable :: "rounding \<Rightarrow> fval \<Rightarrow> bool" where
  "representable rnd (Fin r) = exact rnd r"
| "representable rnd v = True"

subsection \<open>Arrays and slices\<close>

text \<open>A 2-D array is the list of its rows; its shape is the length of every row.\<close>

type_synonym array2d = "fval list list"

definition shape :: "array2d \<Rightarrow> nat list" where
  "shape d = map length d"

text \<open>
  \<open>slice(a, b)\<close> applied to a sequence of length \<open>n\<close>: a negative bound counts from the
  end, and every bound is clamped into \<open>0..n\<close>; the selection is empty when the start is
  not below the stop. Python raises nothing here.
\<close>

definition slice_bound :: "int \<Rightarrow> nat \<Rightarrow> nat" where
  "slice_bound b n = (if b < 0 then nat (max 0 (b + int n)) else min (nat b) n)"

definition py_slice :: "int \<times> int \<Rightarrow> 'a list \<Rightarrow> 'a list" where
  "py_slice sl xs =
     (let n = length xs; s = slice_bound (fst sl) n; e = slice_bound (snd sl) n
      in take (e - s) (drop s xs))"

text \<open>
  \<open>stats_region\<close> is a pair of pairs, \<open>[[x0, x1], [y0, y1]]\<close>; \<open>slx\<close> is made of its
  first pair and \<open>sly\<close> of its second, and \<open>data[sly, slx]\<close> cuts the rows with \<open>sly\<close>
  and every remaining row with \<open>slx\<close>.
\<close>

type_synonym region = "(int \<times> int) \<times> (int \<times> int)"

text \<open>
  The region of the notebook; its comment invites the user to define another one, so the
  cell is embedded for any region.
\<close>

definition stats_region :: region where
  "stats_region = ((5, 1014), (5, 1014))"

definition slx :: "region \<Rightarrow> int \<times> int" where
  "slx reg = fst reg"

definition sly :: "region \<Rightarrow> int \<times> int" where
  "sly reg = snd reg"

definition region_data :: "region \<Rightarrow> array2d \<Rightarrow> array2d" where
  "region_data reg d = map (py_slice (slx reg)) (py_slice (sly reg) d)"

subsection \<open>The median\<close>

text \<open>
  \<open>np.median\<close> flattens its argument. It returns NaN for an empty array and for an
  array that holds a NaN. Otherwise it orders the values, the negative infinities first
  and the positive ones last, and returns the mean of the middle values: the middle
  value itself when their number is odd, and else the sum of the two middle values,
  rounded, divided by two, rounded.
\<close>

fun fin_vals :: "fval list \<Rightarrow> real list" where
  "fin_vals [] = []"
| "fin_vals (Fin r # vs) = r # fin_vals vs"
| "fin_vals (v # vs) = fin_vals vs"

definition sorted_vals :: "fval list \<Rightarrow> fval list" where
  "sorted_vals vs =
     filter (\<lambda>v. v = NInf) vs @ map Fin (sort (fin_vals vs)) @ filter (\<lambda>v. v = PInf) vs"

definition np_median_flat :: "rounding \<Rightarrow> fval list \<Rightarrow> fval" where
  "np_median_flat rnd vs =
     (if vs = [] \<or> NaN \<in> set vs then NaN
      else let s = sorted_vals vs; n = length s
           in if even n then fhalf rnd (fadd rnd (s ! (n div 2 - 1)) (s ! (n div 2)))
              else s ! (n div 2))"

definition np_median :: "rounding \<Rightarrow> array2d \<Rightarrow> fval" where
  "np_median rnd d = np_median_flat rnd (concat d)"

text \<open>The median of the statistics region of one read: \<open>np.median(data[sly, slx])\<close>.\<close>

definition region_median :: "rounding \<Rightarrow> region \<Rightarrow> array2d \<Rightarrow> fval" where
  "region_median rnd reg d = np_median rnd (region_data reg d)"

subsection \<open>The opened file\<close>

text \<open>
  Of the opened IMA file the cell reads the header keyword \<open>NSAMP\<close> and reads and
  writes the data of the science extensions \<open>['SCI', k]\<close>, numbered from 1. Asking for
  an extension that the file does not have raises \<open>KeyError\<close>.
\<close>

record hdulist =
  NSAMP :: int
  SCI :: "array2d list"

datatype error = KeyError

definition get_sci :: "hdulist \<Rightarrow> nat \<Rightarrow> error + array2d" where
  "get_sci ima k =
     (if 1 \<le> k \<and> k \<le> length (SCI ima) then Inr (SCI ima ! (k - 1)) else Inl KeyError)"

definition set_sci :: "hdulist \<Rightarrow> nat \<Rightarrow> array2d \<Rightarrow> hdulist" where
  "set_sci ima k d = ima\<lparr>SCI := (SCI ima)[k - 1 := d]\<rparr>"

text \<open>\<open>data += c\<close> adds the scalar to every element of the array, in the array's format.\<close>

definition add_scalar :: "rounding \<Rightarrow> array2d \<Rightarrow> fval \<Rightarrow> array2d" where
  "add_scalar rnd d c = map (map (\<lambda>p. fadd rnd p c)) d"

subsection \<open>The cell\<close>

text \<open>The read whose median is the full-exposure countrate: \<open>ima['SCI',1]\<close>.\<close>

definition reference_index :: nat where
  "reference_index = 1"

definition total_countrate :: "rounding \<Rightarrow> region \<Rightarrow> hdulist \<Rightarrow> error + fval" where
  "total_countrate rnd reg ima =
     (case get_sci ima reference_index of
        Inl e \<Rightarrow> Inl e
      | Inr d \<Rightarrow> Inr (region_median rnd reg d))"

text \<open>
  One pass of the loop body for the loop variable \<open>i\<close>, with \<open>tc\<close> the value of
  \<open>total_countrate\<close>. The state is the file in memory
  and the lines printed so far, each line as the pair of the extension number and the
  median it reports.
\<close>

type_synonym diagnostics = "(nat \<times> fval) list"

definition loop_body ::
  "rounding \<Rightarrow> region \<Rightarrow> fval \<Rightarrow> nat \<Rightarrow> hdulist \<times> diagnostics
     \<Rightarrow> error + hdulist \<times> diagnostics" where
  "loop_body rnd reg tc i st =
     (case get_sci (fst st) (i + 1) of
        Inl e \<Rightarrow> Inl e
      | Inr d \<Rightarrow>
          (let med = region_median rnd reg d
           in Inr (set_sci (fst st) (i + 1) (add_scalar rnd d (fsub rnd tc med)),
                   snd st @ [(i + 1, med)])))"

fun loop ::
  "rounding \<Rightarrow> region \<Rightarrow> fval \<Rightarrow> nat list \<Rightarrow> hdulist \<times> diagnostics
     \<Rightarrow> error + hdulist \<times> diagnostics" where
  "loop rnd reg tc [] st = Inr st"
| "loop rnd reg tc (i # ks) st =
     (case loop_body rnd reg tc i st of
        Inl e \<Rightarrow> Inl e
      | Inr st' \<Rightarrow> loop rnd reg tc ks st')"

text \<open>\<open>range(n)\<close> for a Python integer \<open>n\<close>: empty when \<open>n \<le> 0\<close>.\<close>

definition py_range :: "int \<Rightarrow> nat list" where
  "py_range n = [0 ..< nat n]"

definition normalize_ima ::
  "rounding \<Rightarrow> region \<Rightarrow> hdulist \<Rightarrow> error + hdulist \<times> diagnostics" where
  "normalize_ima rnd reg ima =
     (case total_countrate rnd reg ima of
        Inl e \<Rightarrow> Inl e
      | Inr tc \<Rightarrow> loop rnd reg tc (py_range (NSAMP ima - 1)) (ima, []))"

text \<open>
  An IMA file holds one science extension per sample: \<open>NSAMP\<close> of them, and at least
  one.
\<close>

definition well_formed :: "hdulist \<Rightarrow> bool" where
  "well_formed ima \<longleftrightarrow> 1 \<le> NSAMP ima \<and> int (length (SCI ima)) = NSAMP ima"

text \<open>
  What the loop body stores back into the extension whose data are \<open>d\<close>: the data plus
  \<open>total_countrate - med\<close>.
\<close>

definition corrected_read :: "rounding \<Rightarrow> region \<Rightarrow> fval \<Rightarrow> array2d \<Rightarrow> array2d" where
  "corrected_read rnd reg tc d = add_scalar rnd d (fsub rnd tc (region_median rnd reg d))"

subsection \<open>Operations that do not round\<close>

text \<open>
  For a read whose region values are the real numbers \<open>ps\<close>: the two middle values of
  the ordered list (one and the same value when their number is odd) and their mean, the
  median in exact arithmetic.
\<close>

definition mid_lo :: "real list \<Rightarrow> real" where
  "mid_lo ps = sort ps ! ((length ps - 1) div 2)"

definition mid_hi :: "real list \<Rightarrow> real" where
  "mid_hi ps = sort ps ! (length ps div 2)"

definition exact_median :: "real list \<Rightarrow> real" where
  "exact_median ps = (mid_lo ps + mid_hi ps) / 2"

text \<open>
  The median of \<open>ps\<close> is computed without a rounding error: nothing is computed for an
  odd number of values, and else the sum of the two middle values and its half are exact.
\<close>

definition median_unrounded :: "rounding \<Rightarrow> real list \<Rightarrow> bool" where
  "median_unrounded rnd ps \<longleftrightarrow>
     odd (length ps) \<or> exact rnd (mid_lo ps + mid_hi ps) \<and> exact rnd (exact_median ps)"

text \<open>
  None of the operations of one pass of the loop body rounds, for a read with region
  values \<open>ps\<close> and the full-exposure countrate \<open>t\<close>: the median of the read, the
  offset \<open>t - med\<close>, the sum of every region value and the offset, and the median of
  these sums.
\<close>

definition no_rounding :: "rounding \<Rightarrow> real \<Rightarrow> real list \<Rightarrow> bool" where
  "no_rounding rnd t ps \<longleftrightarrow>
     (let c = t - exact_median ps
      in median_unrounded rnd ps \<and> exact rnd c \<and> list_all (\<lambda>p. exact rnd (p + c)) ps
         \<and> median_unrounded rnd (map (\<lambda>p. p + c) ps))"

text \<open>Every pixel of an array is representable.\<close>

definition in_format :: "rounding \<Rightarrow> array2d \<Rightarrow> bool" where
  "in_format rnd d \<longleftrightarrow> list_all (list_all (representable rnd)) d"

subsection \<open>The validity of a region\<close>

text \<open>
  The cell makes no test of the region. The predicate below says what it means for a
  region to lie inside an array, with its start not after its stop on both axes.
\<close>

definition region_within :: "region \<Rightarrow> array2d \<Rightarrow> bool" where
  "region_within reg d \<longleftrightarrow>
     0 \<le> fst (sly reg) \<and> fst (sly reg) \<le> snd (sly reg) \<and> snd (sly reg) \<le> int (length d)
   \<and> 0 \<le> fst (slx reg) \<and> fst (slx reg) \<le> snd (slx reg)
   \<and> list_all (\<lambda>row. snd (slx reg) \<le> int (length row)) d"

subsection \<open>Concrete reads and ramps\<close>

text \<open>
  Reads of two rows and three columns. The region of the examples is the first two
  columns of both rows, so the third column lies outside it.
\<close>

definition scenario_region :: region where
  "scenario_region = ((0, 2), (0, 2))"

text \<open>Region values 9, 10, 10, 11: median 10.\<close>

definition read_10 :: array2d where
  "read_10 = [[Fin 9, Fin 10, Fin 50], [Fin 10, Fin 11, Fin 60]]"

text \<open>Region values 5, 6, 6, 7: median 6.\<close>

definition read_6 :: array2d where
  "read_6 = [[Fin 5, Fin 6, Fin 70], [Fin 6, Fin 7, Fin 80]]"

text \<open>\<open>read_6\<close> with 4 added to every pixel, and \<open>read_10\<close> with 4 taken from every pixel.\<close>

definition read_6_plus_4 :: array2d where
  "read_6_plus_4 = [[Fin 9, Fin 10, Fin 74], [Fin 10, Fin 11, Fin 84]]"

definition read_10_minus_4 :: array2d where
  "read_10_minus_4 = [[Fin 5, Fin 6, Fin 46], [Fin 6, Fin 7, Fin 56]]"

text \<open>Region values all 10: median 10.\<close>

definition read_flat_10 :: array2d where
  "read_flat_10 = [[Fin 10, Fin 10, Fin 0], [Fin 10, Fin 10, Fin 0]]"

text \<open>Nothing but NaN inside the region; one NaN inside the region; NaN everywhere.\<close>

definition read_nan_region :: array2d where
  "read_nan_region = [[NaN, NaN, Fin 70], [NaN, NaN, Fin 80]]"

definition read_one_nan :: array2d where
  "read_one_nan = [[NaN, Fin 10, Fin 50], [Fin 10, Fin 11, Fin 60]]"

definition read_all_nan :: array2d where
  "read_all_nan = [[NaN, NaN, NaN], [NaN, NaN, NaN]]"

text \<open>The ramp with region medians 10, 6, 10, and what the cell makes of it.\<close>

definition scenario_ramp :: hdulist where
  "scenario_ramp = \<lparr>NSAMP = 3, SCI = [read_10, read_6, read_flat_10]\<rparr>"

definition scenario_corrected :: hdulist where
  "scenario_corrected = \<lparr>NSAMP = 3, SCI = [read_10, read_6_plus_4, read_flat_10]\<rparr>"

text \<open>Two reads, the last with the smaller median; and the same reads in the other order.\<close>

definition two_read_ramp :: hdulist where
  "two_read_ramp = \<lparr>NSAMP = 2, SCI = [read_10, read_6]\<rparr>"

definition swapped_ramp :: hdulist where
  "swapped_ramp = \<lparr>NSAMP = 2, SCI = [read_6, read_10]\<rparr>"

text \<open>Three reads, the second with the larger median.\<close>

definition bright_ramp :: hdulist where
  "bright_ramp = \<lparr>NSAMP = 3, SCI = [read_6, read_10, read_flat_10]\<rparr>"

definition bright_corrected :: hdulist where
  "bright_corrected = \<lparr>NSAMP = 3, SCI = [read_6, read_10_minus_4, read_flat_10]\<rparr>"

text \<open>Ramps with NaN inside the region of the second read, and of the first read.\<close>

definition nan_ramp :: hdulist where
  "nan_ramp = \<lparr>NSAMP = 3, SCI = [read_10, read_nan_region, read_flat_10]\<rparr>"

definition nan_corrected :: hdulist where
  "nan_corrected = \<lparr>NSAMP = 3, SCI = [read_10, read_all_nan, read_flat_10]\<rparr>"

definition nan_reference_ramp :: hdulist where
  "nan_reference_ramp = \<lparr>NSAMP = 2, SCI = [read_one_nan, read_6]\<rparr>"

definition nan_reference_corrected :: hdulist where
  "nan_reference_corrected = \<lparr>NSAMP = 2, SCI = [read_all_nan, read_6]\<rparr>"

text \<open>The scenario's ramp after a run in which every median was NaN.\<close>

definition all_nan_corrected :: hdulist where
  "all_nan_corrected = \<lparr>NSAMP = 3, SCI = [read_all_nan, read_all_nan, read_flat_10]\<rparr>"

text \<open>
  A ramp on which single precision rounds: the region median of the first read is 1, that
  of the second read is \<open>2 ^ 25\<close>, and \<open>1 - 2 ^ 25\<close> is not a number of the format. The
  second definition is the ramp after one run of the cell, the third after two runs.
\<close>

definition read_ones :: array2d where
  "read_ones = [[Fin 1, Fin 1, Fin 0], [Fin 1, Fin 1, Fin 0]]"

definition read_big :: array2d where
  "read_big = [[Fin 33554432, Fin 33554432, Fin 0], [Fin 33554432, Fin 33554432, Fin 0]]"

definition read_big_once :: array2d where
  "read_big_once = [[Fin 0, Fin 0, Fin (- 33554432)], [Fin 0, Fin 0, Fin (- 33554432)]]"

definition read_big_twice :: array2d where
  "read_big_twice = [[Fin 1, Fin 1, Fin (- 33554432)], [Fin 1, Fin 1, Fin (- 33554432)]]"

definition rounding_ramp :: hdulist where
  "rounding_ramp = \<lparr>NSAMP = 3, SCI = [read_ones, read_big, read_flat_10]\<rparr>"

definition rounding_once :: hdulist where
  "rounding_once = \<lparr>NSAMP = 3, SCI = [read_ones, read_big_once, read_flat_10]\<rparr>"

definition rounding_twice :: hdulist where
  "rounding_twice = \<lparr>NSAMP = 3, SCI = [read_ones, read_big_twice, read_flat_10]\<rparr>"

text \<open>A ramp whose first read has only positive infinities inside the region.\<close>

definition read_inf :: array2d where
  "read_inf = [[PInf, PInf, Fin 50], [PInf, PInf, Fin 60]]"

definition inf_reference_ramp :: hdulist where
  "inf_reference_ramp = \<lparr>NSAMP = 2, SCI = [read_inf, read_6]\<rparr>"

text \<open>A file with one read only, for which the loop does not run.\<close>

definition single_read_ramp :: hdulist where
  "single_read_ramp = \<lparr>NSAMP = 1, SCI = [read_10]\<rparr>"

section \<open>Properties\<close>

subsection \<open>Arithmetic on pixel values, slices and the median\<close>

lemma shape_add_scalar: "shape (add_scalar rnd d c) = shape d"
  by (simp add: shape_def add_scalar_def comp_def)

lemma length_add_scalar: "length (add_scalar rnd d c) = length d"
  by (simp add: add_scalar_def)





subsection \<open>The loop\<close>

lemma loop_body_in_range:
  assumes "i < length (SCI (fst st))"
  shows "loop_body rnd reg tc i st =
           Inr ((fst st)\<lparr>SCI := (SCI (fst st))[i := corrected_read rnd reg tc (SCI (fst st) ! i)]\<rparr>,
                snd st @ [(Suc i, region_median rnd reg (SCI (fst st) ! i))])"
  using assms by (simp add: loop_body_def get_sci_def set_sci_def corrected_read_def Let_def)

lemma loop_body_out_of_range:
  assumes "\<not> i < length (SCI (fst st))"
  shows "loop_body rnd reg tc i st = Inl KeyError"
  using assms by (simp add: loop_body_def get_sci_def)

lemma loop_closed_form:
  assumes "distinct ks" and "\<forall>i\<in>set ks. i < length (SCI (fst st))"
  shows "loop rnd reg tc ks st =
           Inr ((fst st)\<lparr>SCI := map (\<lambda>j. if j \<in> set ks
                                          then corrected_read rnd reg tc (SCI (fst st) ! j)
                                          else SCI (fst st) ! j)
                                   [0 ..< length (SCI (fst st))]\<rparr>,
                snd st @ map (\<lambda>i. (Suc i, region_median rnd reg (SCI (fst st) ! i))) ks)"
  using assms
proof (induction ks arbitrary: st)
  case Nil
  then show ?case by (simp add: map_nth)
next
  case (Cons i ks)
  define xs where "xs = SCI (fst st)"
  define st1 where "st1 = ((fst st)\<lparr>SCI := xs[i := corrected_read rnd reg tc (xs ! i)]\<rparr>,
                snd st @ [(Suc i, region_median rnd reg (xs ! i))])"
  from Cons.prems have i: "i < length xs" and ni: "i \<notin> set ks" and d: "distinct ks"
    and r: "\<forall>j\<in>set ks. j < length xs"
    by (simp_all add: xs_def)
  have body: "loop_body rnd reg tc i st = Inr st1"
    using i by (simp add: loop_body_in_range xs_def st1_def)
  have s1: "SCI (fst st1) = xs[i := corrected_read rnd reg tc (xs ! i)]"
    by (simp add: st1_def)
  have r1: "\<forall>j\<in>set ks. j < length (SCI (fst st1))"
    using r by (simp add: s1)
  have same: "SCI (fst st1) ! j = xs ! j" if "j \<in> set ks" for j
  proof -
    from that ni have "i \<noteq> j" by auto
    then show ?thesis by (simp add: s1)
  qed
  have m: "map (\<lambda>j. if j \<in> set ks then corrected_read rnd reg tc (SCI (fst st1) ! j)
                      else SCI (fst st1) ! j) [0 ..< length (SCI (fst st1))]
         = map (\<lambda>j. if j \<in> set (i # ks) then corrected_read rnd reg tc (xs ! j) else xs ! j)
             [0 ..< length xs]"
    using i ni by (auto simp: s1 same nth_list_update)
  have o: "map (\<lambda>j. (Suc j, region_median rnd reg (SCI (fst st1) ! j))) ks
         = map (\<lambda>j. (Suc j, region_median rnd reg (xs ! j))) ks"
    using same by simp
  have "loop rnd reg tc (i # ks) st = loop rnd reg tc ks st1"
    by (simp add: body)
  also have "\<dots> = Inr ((fst st1)\<lparr>SCI := map (\<lambda>j. if j \<in> set ks
                                          then corrected_read rnd reg tc (SCI (fst st1) ! j)
                                          else SCI (fst st1) ! j)
                                   [0 ..< length (SCI (fst st1))]\<rparr>,
                snd st1 @ map (\<lambda>i. (Suc i, region_median rnd reg (SCI (fst st1) ! i))) ks)"
    by (rule Cons.IH [OF d r1])
  also have "\<dots> = Inr ((fst st)\<lparr>SCI := map (\<lambda>j. if j \<in> set (i # ks)
                                          then corrected_read rnd reg tc (xs ! j)
                                          else xs ! j)
                                   [0 ..< length xs]\<rparr>,
                snd st @ map (\<lambda>i. (Suc i, region_median rnd reg (xs ! i))) (i # ks))"
    unfolding m o by (simp add: st1_def)
  finally show ?case by (simp add: xs_def)
qed

lemma loop_preserves:
  assumes "loop rnd reg tc ks st = Inr st'"
  shows "NSAMP (fst st') = NSAMP (fst st)
       \<and> map shape (SCI (fst st')) = map shape (SCI (fst st))
       \<and> map fst (snd st') = map fst (snd st) @ map Suc ks
       \<and> (\<forall>j. j \<notin> set ks \<longrightarrow> SCI (fst st') ! j = SCI (fst st) ! j)"
  using assms
proof (induction ks arbitrary: st)
  case Nil
  then show ?case by simp
next
  case (Cons i ks)
  show ?case
  proof (cases "i < length (SCI (fst st))")
    case False
    then have "loop rnd reg tc (i # ks) st = Inl KeyError"
      by (simp add: loop_body_out_of_range)
    with Cons.prems show ?thesis by simp
  next
    case True
    define st1 where "st1 = ((fst st)\<lparr>SCI := (SCI (fst st))[i := corrected_read rnd reg tc (SCI (fst st) ! i)]\<rparr>,
                snd st @ [(Suc i, region_median rnd reg (SCI (fst st) ! i))])"
    from True have "loop rnd reg tc (i # ks) st = loop rnd reg tc ks st1"
      by (simp add: loop_body_in_range st1_def)
    with Cons.prems have "loop rnd reg tc ks st1 = Inr st'" by simp
    from Cons.IH [OF this]
    have a: "NSAMP (fst st') = NSAMP (fst st1)"
      and b: "map shape (SCI (fst st')) = map shape (SCI (fst st1))"
      and c: "map fst (snd st') = map fst (snd st1) @ map Suc ks"
      and d: "\<forall>j. j \<notin> set ks \<longrightarrow> SCI (fst st') ! j = SCI (fst st1) ! j"
      by simp_all
    have b1: "map shape (SCI (fst st1)) = map shape (SCI (fst st))"
      using True
      by (simp add: st1_def map_update corrected_read_def shape_add_scalar list_update_same_conv)
    have d1: "\<forall>j. j \<notin> set (i # ks) \<longrightarrow> SCI (fst st1) ! j = SCI (fst st) ! j"
      by (simp add: st1_def)
    show ?thesis
      using a b c d b1 d1 by (simp add: st1_def)
  qed
qed

lemma total_countrate_wf:
  assumes "well_formed ima"
  shows "total_countrate rnd reg ima = Inr (region_median rnd reg (SCI ima ! 0))"
  using assms
  by (simp add: total_countrate_def get_sci_def reference_index_def well_formed_def)

lemma get_sci_wf:
  assumes "well_formed ima" and "1 \<le> k" and "int k \<le> NSAMP ima"
  shows "get_sci ima k = Inr (SCI ima ! (k - 1))"
  using assms by (simp add: get_sci_def well_formed_def)

lemma normalize_ima_wf:
  assumes "well_formed ima"
  shows "normalize_ima rnd reg ima =
           Inr (ima\<lparr>SCI := map (\<lambda>j. if j < nat (NSAMP ima - 1)
                                    then corrected_read rnd reg (region_median rnd reg (SCI ima ! 0)) (SCI ima ! j)
                                    else SCI ima ! j)
                              [0 ..< length (SCI ima)]\<rparr>,
                map (\<lambda>i. (Suc i, region_median rnd reg (SCI ima ! i))) [0 ..< nat (NSAMP ima - 1)])"
proof -
  have r: "\<forall>i\<in>set [0 ..< nat (NSAMP ima - 1)]. i < length (SCI (fst (ima, [])))"
    using assms by (auto simp: well_formed_def)
  show ?thesis
    using loop_closed_form [OF distinct_upt r, of rnd reg "region_median rnd reg (SCI ima ! 0)"]
    by (simp add: normalize_ima_def total_countrate_wf [OF assms] py_range_def)
qed

lemma normalize_ima_preserves:
  assumes "normalize_ima rnd reg ima = Inr (ima', out)"
  shows "NSAMP ima' = NSAMP ima
       \<and> map shape (SCI ima') = map shape (SCI ima)
       \<and> map fst out = map Suc [0 ..< nat (NSAMP ima - 1)]
       \<and> (\<forall>j. \<not> j < nat (NSAMP ima - 1) \<longrightarrow> SCI ima' ! j = SCI ima ! j)"
proof -
  from assms obtain tc where
    "loop rnd reg tc (py_range (NSAMP ima - 1)) (ima, []) = Inr (ima', out)"
    by (auto simp: normalize_ima_def split: sum.splits)
  from loop_preserves [OF this] show ?thesis
    by (simp add: py_range_def)
qed

subsection \<open>Pixel arithmetic\<close>

lemma fadd_NaN: "fadd rnd p NaN = NaN"
  by (cases p) simp_all

lemma fsub_NaN: "fsub rnd t NaN = NaN"
  by (cases t) simp_all

lemma fsub_self_not_finite: "\<forall>r. tc \<noteq> Fin r \<Longrightarrow> fsub rnd tc tc = NaN"
  by (cases tc) simp_all

lemma fadd_zero: "representable rnd p \<Longrightarrow> fadd rnd p (Fin 0) = p"
  by (cases p) (simp_all add: exact_def)

lemma add_scalar_zero: "in_format rnd d \<Longrightarrow> add_scalar rnd d (Fin 0) = d"
  by (simp add: in_format_def add_scalar_def list_all_iff fadd_zero map_idI)



lemma nth_add_scalar:
  assumes "r < length d" and "c < length (d ! r)"
  shows "add_scalar rnd d x ! r ! c = fadd rnd (d ! r ! c) x"
  using assms by (simp add: add_scalar_def)

lemma add_scalar_NaN: "\<forall>row\<in>set (add_scalar rnd d NaN). \<forall>p\<in>set row. p = NaN"
  by (auto simp: add_scalar_def fadd_NaN)

lemma np_median_flat_all_NaN:
  assumes "\<forall>v\<in>set vs. v = NaN"
  shows "np_median_flat rnd vs = NaN"
proof (cases vs)
  case Nil
  then show ?thesis by (simp add: np_median_flat_def)
next
  case (Cons v ws)
  with assms have "NaN \<in> set vs" by auto
  then show ?thesis by (simp add: np_median_flat_def)
qed

subsection \<open>The median of real values\<close>









lemma reference_unchanged:
  assumes "region_median rnd reg d = Fin t" and "exact rnd 0" and "in_format rnd d"
  shows "fsub rnd (Fin t) (region_median rnd reg d) = Fin 0"
    and "corrected_read rnd reg (Fin t) d = d"
proof -
  show z: "fsub rnd (Fin t) (region_median rnd reg d) = Fin 0"
    using assms(2) by (simp add: assms(1) exact_def)
  show "corrected_read rnd reg (Fin t) d = d"
    using assms(3) by (simp add: corrected_read_def z add_scalar_zero)
qed

subsection \<open>Slices\<close>

lemma slice_bound_beyond: "int n \<le> b \<Longrightarrow> slice_bound b n = n"
  by (simp add: slice_bound_def)

lemma py_slice_beyond:
  "int (length xs) \<le> b \<Longrightarrow> py_slice (a, b) xs = py_slice (a, int (length xs)) xs"
  by (simp add: py_slice_def Let_def slice_bound_beyond)

lemma py_slice_reversed:
  assumes "0 \<le> b" and "b \<le> a"
  shows "py_slice (a, b) xs = []"
proof -
  from assms have "slice_bound b (length xs) \<le> slice_bound a (length xs)"
    by (simp add: slice_bound_def)
  then show ?thesis by (simp add: py_slice_def Let_def)
qed

lemma region_median_reversed_rows:
  assumes "0 \<le> snd (sly reg)" and "snd (sly reg) \<le> fst (sly reg)"
  shows "region_median rnd reg d = NaN"
proof -
  have "py_slice (sly reg) d = py_slice (fst (sly reg), snd (sly reg)) d" by simp
  also have "\<dots> = []" using assms by (rule py_slice_reversed)
  finally show ?thesis
    by (simp add: region_median_def np_median_def region_data_def np_median_flat_def)
qed

subsection \<open>One read of the result\<close>

lemma normalize_ima_read:
  assumes wf: "well_formed ima" and k: "1 \<le> k" "int k < NSAMP ima"
  shows "\<exists>ima' out. normalize_ima rnd reg ima = Inr (ima', out)
           \<and> well_formed ima'
           \<and> get_sci ima' k =
               Inr (corrected_read rnd reg (region_median rnd reg (SCI ima ! 0)) (SCI ima ! (k - 1)))
           \<and> get_sci ima' reference_index =
               Inr (corrected_read rnd reg (region_median rnd reg (SCI ima ! 0)) (SCI ima ! 0))
           \<and> (k, region_median rnd reg (SCI ima ! (k - 1))) \<in> set out"
proof -
  define ima' where "ima' = ima\<lparr>SCI := map (\<lambda>j. if j < nat (NSAMP ima - 1)
                                    then corrected_read rnd reg (region_median rnd reg (SCI ima ! 0)) (SCI ima ! j)
                                    else SCI ima ! j)
                              [0 ..< length (SCI ima)]\<rparr>"
  define out where
    "out = map (\<lambda>i. (Suc i, region_median rnd reg (SCI ima ! i))) [0 ..< nat (NSAMP ima - 1)]"
  have run: "normalize_ima rnd reg ima = Inr (ima', out)"
    by (simp add: normalize_ima_wf [OF wf] ima'_def out_def)
  have wf': "well_formed ima'"
    using wf by (simp add: well_formed_def ima'_def)
  from wf k have kl: "k - 1 < length (SCI ima)" and km: "k - 1 < nat (NSAMP ima - 1)"
    and zl: "0 < length (SCI ima)" and zm: "0 < nat (NSAMP ima - 1)"
    by (auto simp: well_formed_def)
  have rk: "get_sci ima' k =
      Inr (corrected_read rnd reg (region_median rnd reg (SCI ima ! 0)) (SCI ima ! (k - 1)))"
    using k kl km by (simp add: get_sci_def ima'_def)
  from zl have z1: "Suc 0 \<le> length (SCI ima)" by arith
  have r1: "get_sci ima' reference_index =
      Inr (corrected_read rnd reg (region_median rnd reg (SCI ima ! 0)) (SCI ima ! 0))"
    using zl zm z1 by (simp add: get_sci_def ima'_def reference_index_def)
  have "(Suc (k - 1), region_median rnd reg (SCI ima ! (k - 1))) \<in> set out"
    unfolding out_def using km by (auto simp: image_iff)
  with k have "(k, region_median rnd reg (SCI ima ! (k - 1))) \<in> set out" by simp
  with run wf' rk r1 show ?thesis by blast
qed

subsection \<open>Two runs\<close>




subsection \<open>The concrete ramps\<close>

text \<open>
  The runs of the cell on the concrete ramps in single precision, each computed from the
  definitions.
\<close>

lemma scenario_run:
  "normalize_ima round_binary32 scenario_region scenario_ramp
     = Inr (scenario_corrected, [(1, Fin 10), (2, Fin 6)])"
  by code_simp


lemma two_read_run:
  "normalize_ima round_binary32 scenario_region two_read_ramp
     = Inr (two_read_ramp, [(1, Fin 10)])"
  by code_simp

lemma swapped_run:
  "normalize_ima round_binary32 scenario_region swapped_ramp = Inr (swapped_ramp, [(1, Fin 6)])"
  by code_simp

lemma bright_run:
  "normalize_ima round_binary32 scenario_region bright_ramp
     = Inr (bright_corrected, [(1, Fin 6), (2, Fin 10)])"
  by code_simp

lemma nan_run:
  "normalize_ima round_binary32 scenario_region nan_ramp
     = Inr (nan_corrected, [(1, Fin 10), (2, NaN)])"
  by code_simp


lemma nan_reference_run:
  "normalize_ima round_binary32 scenario_region nan_reference_ramp
     = Inr (nan_reference_corrected, [(1, NaN)])"
  by code_simp

lemma inf_reference_run:
  "normalize_ima round_binary32 scenario_region inf_reference_ramp
     = Inr (nan_reference_corrected, [(1, PInf)])"
  by code_simp

lemma empty_rows_run:
  "normalize_ima round_binary32 ((0, 2), (1, 0)) scenario_ramp
     = Inr (all_nan_corrected, [(1, NaN), (2, NaN)])"
  by code_simp

lemma beyond_rows_run:
  "normalize_ima round_binary32 ((0, 2), (0, 1000)) scenario_ramp
     = Inr (scenario_corrected, [(1, Fin 10), (2, Fin 6)])"
  by code_simp

lemma stats_region_run:
  "normalize_ima round_binary32 stats_region scenario_ramp
     = Inr (all_nan_corrected, [(1, NaN), (2, NaN)])"
  by code_simp

lemma rounding_run:
  "normalize_ima round_binary32 scenario_region rounding_ramp
     = Inr (rounding_once, [(1, Fin 1), (2, Fin 33554432)])"
  by code_simp


lemma read_medians:
  "region_median round_binary32 scenario_region read_10 = Fin 10"
  "region_median round_binary32 scenario_region read_6 = Fin 6"
  "region_median round_binary32 scenario_region read_flat_10 = Fin 10"
  "region_median round_binary32 scenario_region read_6_plus_4 = Fin 10"
  "region_median round_binary32 scenario_region read_one_nan = NaN"
  "region_median round_binary32 scenario_region read_nan_region = NaN"
  "region_median round_binary32 scenario_region read_inf = PInf"
  "region_median round_binary32 scenario_region read_ones = Fin 1"
  "region_median round_binary32 scenario_region read_big = Fin 33554432"
  "region_median round_binary32 scenario_region read_big_once = Fin 0"
  by code_simp+


lemma single_read_run:
  "normalize_ima round_binary32 scenario_region single_read_ramp = Inr (single_read_ramp, [])"
  by code_simp

lemma single_read_facts:
  "well_formed single_read_ramp" "NSAMP single_read_ramp = 1"
  "get_sci single_read_ramp (Suc 0) = Inr read_10"
  "total_countrate round_binary32 scenario_region single_read_ramp = Inr (Fin 10)"
  by (simp_all add: well_formed_def single_read_ramp_def get_sci_def total_countrate_def
      reference_index_def read_medians)

lemma ramps_wf:
  "well_formed scenario_ramp" "well_formed two_read_ramp" "well_formed swapped_ramp"
  "well_formed bright_ramp" "well_formed nan_ramp" "well_formed nan_reference_ramp"
  "well_formed rounding_ramp" "well_formed inf_reference_ramp"
  by (simp_all add: well_formed_def scenario_ramp_def two_read_ramp_def swapped_ramp_def
      bright_ramp_def nan_ramp_def nan_reference_ramp_def rounding_ramp_def
      inf_reference_ramp_def)

lemma ramps_get_sci_first:
  "get_sci scenario_ramp (Suc 0) = Inr read_10"
  "get_sci scenario_corrected (Suc 0) = Inr read_10"
  "get_sci two_read_ramp (Suc 0) = Inr read_10"
  "get_sci swapped_ramp (Suc 0) = Inr read_6"
  "get_sci bright_ramp (Suc 0) = Inr read_6"
  "get_sci nan_reference_ramp (Suc 0) = Inr read_one_nan"
  "get_sci nan_reference_corrected (Suc 0) = Inr read_all_nan"
  "get_sci nan_corrected (Suc 0) = Inr read_10"
  "get_sci inf_reference_ramp (Suc 0) = Inr read_inf"
  "get_sci rounding_ramp (Suc 0) = Inr read_ones"
  "get_sci rounding_once (Suc 0) = Inr read_ones"
  by (simp_all add: get_sci_def scenario_ramp_def scenario_corrected_def two_read_ramp_def
      swapped_ramp_def bright_ramp_def nan_reference_ramp_def nan_reference_corrected_def
      nan_corrected_def inf_reference_ramp_def rounding_ramp_def rounding_once_def)

lemma ramps_get_sci:
  "get_sci scenario_ramp 2 = Inr read_6"
  "get_sci scenario_ramp 3 = Inr read_flat_10"
  "get_sci scenario_corrected 2 = Inr read_6_plus_4"
  "get_sci scenario_corrected 3 = Inr read_flat_10"
  "get_sci two_read_ramp 2 = Inr read_6"
  "get_sci swapped_ramp 2 = Inr read_10"
  "get_sci bright_ramp 2 = Inr read_10"
  "get_sci bright_corrected 2 = Inr read_10_minus_4"
  "get_sci nan_ramp 2 = Inr read_nan_region"
  "get_sci nan_corrected 2 = Inr read_all_nan"
  "get_sci rounding_ramp 2 = Inr read_big"
  "get_sci rounding_once 2 = Inr read_big_once"
  "get_sci rounding_twice 2 = Inr read_big_twice"
  by (simp_all add: get_sci_def scenario_ramp_def scenario_corrected_def two_read_ramp_def
      swapped_ramp_def bright_ramp_def bright_corrected_def nan_ramp_def nan_corrected_def
      rounding_ramp_def rounding_once_def rounding_twice_def)

lemma ramps_total_countrate:
  "total_countrate round_binary32 scenario_region scenario_ramp = Inr (Fin 10)"
  "total_countrate round_binary32 scenario_region scenario_corrected = Inr (Fin 10)"
  "total_countrate round_binary32 scenario_region two_read_ramp = Inr (Fin 10)"
  "total_countrate round_binary32 scenario_region swapped_ramp = Inr (Fin 6)"
  "total_countrate round_binary32 scenario_region bright_ramp = Inr (Fin 6)"
  "total_countrate round_binary32 scenario_region nan_reference_ramp = Inr NaN"
  "total_countrate round_binary32 scenario_region nan_corrected = Inr (Fin 10)"
  "total_countrate round_binary32 scenario_region inf_reference_ramp = Inr PInf"
  "total_countrate round_binary32 scenario_region rounding_ramp = Inr (Fin 1)"
  "total_countrate round_binary32 scenario_region rounding_once = Inr (Fin 1)"
  by (simp_all add: total_countrate_def reference_index_def ramps_get_sci_first read_medians)

text \<open>
  Single precision is exact on the small numbers of the examples. It rounds \<open>1/10\<close>,
  rounds ties to the even significand, overflows to an infinity and underflows to zero.
\<close>

lemma binary32_examples:
  "round_binary32 (1 / 10) = Fin (13421773 / 134217728)"
  "round_binary32 16777217 = Fin 16777216"
  "round_binary32 16777219 = Fin 16777220"
  "round_binary32 (- 33554431) = Fin (- 33554432)"
  "round_binary32 999999996 = Fin 1000000000"
  "round_binary32 (2 ^ 128 - 2 ^ 103 - 1) = Fin (2 ^ 128 - 2 ^ 104)"
  "round_binary32 (2 ^ 128 - 2 ^ 103) = PInf"
  "round_binary32 (- (2 ^ 128)) = NInf"
  "round_binary32 (1 / 2 ^ 149) = Fin (1 / 2 ^ 149)"
  "round_binary32 (1 / 2 ^ 150) = Fin 0"
  "round_binary32 (3 / 2 ^ 150) = Fin (1 / 2 ^ 148)"
  by code_simp+

text \<open>
  The median in single precision: the sum of the two middle values is rounded before it
  is halved, infinities are ordered with the numbers, and the sum of two large middle
  values overflows.
\<close>

lemma median_rounds:
  "np_median_flat round_binary32 [Fin 16777218, Fin 16777216] = Fin 16777216"
  "np_median_flat round_binary32 [Fin 1, Fin 2, PInf] = Fin 2"
  "np_median_flat round_binary32 [PInf, NInf] = NaN"
  "np_median_flat round_binary32 [Fin (2 ^ 127), Fin (2 ^ 127)] = PInf"
  by code_simp+

lemma binary32_exact:
  "exact round_binary32 0" "exact round_binary32 4" "exact round_binary32 (- 4)"
  "exact round_binary32 6" "exact round_binary32 10"
  by (simp_all add: exact_def) code_simp+

lemma reads_in_format:
  "in_format round_binary32 read_10" "in_format round_binary32 read_6"
  "in_format round_binary32 read_flat_10" "in_format round_binary32 read_6_plus_4"
  by code_simp+


lemma no_rounding_read_10: "no_rounding round_binary32 6 [9, 10, 10, 11]"
  by code_simp

section \<open>The claims\<close>

subsection \<open>Medians after the correction\<close>




subsection \<open>The offset of one read\<close>

text \<open>
  Claim C2, as the cell has it: for every read \<open>k\<close> with \<open>1 \<le> k < NSAMP\<close> of a
  well-formed file (the reference read among them) the cell reports the region median of
  the read and stores the read with \<open>total_countrate - med\<close> added to every pixel of the
  whole array, inside the region and outside it. The difference and the sums are those
  of the arithmetic of the array, each rounded into the format. The last read is not
  among them.
\<close>

theorem offset_applied_to_full_array:
  assumes "well_formed ima" and "1 \<le> k" and "int k < NSAMP ima"
    and "get_sci ima k = Inr d" and "total_countrate rnd reg ima = Inr tc"
  shows "\<exists>ima' out d'. normalize_ima rnd reg ima = Inr (ima', out)
           \<and> (k, region_median rnd reg d) \<in> set out
           \<and> get_sci ima' k = Inr d'
           \<and> shape d' = shape d
           \<and> (\<forall>r<length d. \<forall>c<length (d ! r).
                 d' ! r ! c = fadd rnd (d ! r ! c) (fsub rnd tc (region_median rnd reg d)))"
proof -
  from assms have d: "d = SCI ima ! (k - 1)"
    by (simp add: get_sci_wf)
  from assms have tc: "tc = region_median rnd reg (SCI ima ! 0)"
    by (simp add: total_countrate_wf)
  from normalize_ima_read [OF assms(1-3), of rnd reg] obtain ima' out where
    run: "normalize_ima rnd reg ima = Inr (ima', out)"
    and rk: "get_sci ima' k = Inr (corrected_read rnd reg tc d)"
    and pk: "(k, region_median rnd reg d) \<in> set out"
    unfolding d tc by blast
  have s: "shape (corrected_read rnd reg tc d) = shape d"
    by (simp add: corrected_read_def shape_add_scalar)
  have p: "\<forall>r<length d. \<forall>c<length (d ! r).
      corrected_read rnd reg tc d ! r ! c = fadd rnd (d ! r ! c) (fsub rnd tc (region_median rnd reg d))"
    by (simp add: corrected_read_def nth_add_scalar)
  from run rk pk s p show ?thesis by blast
qed

theorem offset_applied_to_full_array_witness:
  "well_formed scenario_ramp \<and> (1::nat) \<le> 2 \<and> int 2 < NSAMP scenario_ramp
   \<and> get_sci scenario_ramp 2 = Inr read_6
   \<and> total_countrate round_binary32 scenario_region scenario_ramp = Inr (Fin 10)
   \<and> normalize_ima round_binary32 scenario_region scenario_ramp
       = Inr (scenario_corrected, [(1, Fin 10), (2, Fin 6)])
   \<and> get_sci scenario_corrected 2 = Inr read_6_plus_4
   \<and> shape read_6_plus_4 = shape read_6
   \<and> read_6_plus_4 ! 1 ! 2 = fadd round_binary32 (read_6 ! 1 ! 2) (fsub round_binary32 (Fin 10) (Fin 6))"
proof -
  have k: "(1::nat) \<le> 2" "int 2 < NSAMP scenario_ramp"
    by (simp_all add: scenario_ramp_def)
  have r: "1 < length read_6" and c: "2 < length (read_6 ! 1)"
    by (simp_all add: read_6_def)
  from offset_applied_to_full_array
    [OF ramps_wf(1) k ramps_get_sci(1) ramps_total_countrate(1)]
  have "shape read_6_plus_4 = shape read_6
      \<and> (\<forall>r<length read_6. \<forall>c<length (read_6 ! r).
            read_6_plus_4 ! r ! c = fadd round_binary32 (read_6 ! r ! c) (fsub round_binary32 (Fin 10) (Fin 6)))"
    by (auto simp: scenario_run ramps_get_sci read_medians)
  with r c have "shape read_6_plus_4 = shape read_6
      \<and> read_6_plus_4 ! 1 ! 2 = fadd round_binary32 (read_6 ! 1 ! 2) (fsub round_binary32 (Fin 10) (Fin 6))"
    by blast
  with ramps_wf(1) k show ?thesis
    by (simp add: scenario_run ramps_get_sci ramps_total_countrate)
qed

text \<open>
  The claim as stated fails at the last read: in the ramp of two reads, read 2 is not the
  reference read, its median is 6 against a countrate of 10, and the run leaves it as it
  was instead of adding 4 to its pixels.
\<close>

theorem offset_applied_to_full_array_counterexample:
  "well_formed two_read_ramp \<and> reference_index = 1
   \<and> total_countrate round_binary32 scenario_region two_read_ramp = Inr (Fin 10)
   \<and> get_sci two_read_ramp 2 = Inr read_6
   \<and> region_median round_binary32 scenario_region read_6 = Fin 6
   \<and> normalize_ima round_binary32 scenario_region two_read_ramp = Inr (two_read_ramp, [(1, Fin 10)])
   \<and> add_scalar round_binary32 read_6 (fsub round_binary32 (Fin 10) (Fin 6)) = read_6_plus_4
   \<and> read_6 \<noteq> read_6_plus_4"
proof -
  have "add_scalar round_binary32 read_6 (fsub round_binary32 (Fin 10) (Fin 6)) = read_6_plus_4"
    by code_simp
  moreover have "read_6 \<noteq> read_6_plus_4"
    by (simp add: read_6_def read_6_plus_4_def)
  ultimately show ?thesis
    by (simp add: two_read_run read_medians reference_index_def ramps_wf ramps_get_sci
        ramps_total_countrate)
qed

subsection \<open>The three-read scenario\<close>

text \<open>
  Claim C3 (the scenario of three reads). For every file of three single-precision
  reads whose region medians are 10, 6 and 10, the cell adds 4 to every pixel of read 2,
  leaves reads 1 and 3 as they were, and prints exactly the lines of reads 1 and 2 with
  the medians 10 and 6, and none for read 3. The countrate that the cell takes from read 1
  is the region median of read 3 as well, so that the result is the same with read 3 as
  the reference.
\<close>

theorem scenario_result:
  assumes "well_formed ima" and "NSAMP ima = 3"
    and "get_sci ima 1 = Inr d1" and "get_sci ima 2 = Inr d2" and "get_sci ima 3 = Inr d3"
    and "region_median round_binary32 reg d1 = Fin 10"
    and "region_median round_binary32 reg d2 = Fin 6"
    and "region_median round_binary32 reg d3 = Fin 10"
    and "in_format round_binary32 d1"
  shows "\<exists>ima' out. normalize_ima round_binary32 reg ima = Inr (ima', out)
           \<and> total_countrate round_binary32 reg ima = Inr (region_median round_binary32 reg d3)
           \<and> get_sci ima' 1 = Inr d1
           \<and> get_sci ima' 2 = Inr (add_scalar round_binary32 d2 (Fin 4))
           \<and> get_sci ima' 3 = Inr d3
           \<and> out = [(1, Fin 10), (2, Fin 6)]
           \<and> 3 \<notin> fst ` set out"
proof -
  from assms(1,2) have len: "length (SCI ima) = 3"
    by (simp add: well_formed_def)
  from assms(3-5) len have d: "SCI ima ! 0 = d1" "SCI ima ! 1 = d2" "SCI ima ! 2 = d3"
    by (simp_all add: get_sci_def)
  from len obtain a b c where "SCI ima = [a, b, c]"
    by (auto simp: numeral_3_eq_3 length_Suc_conv)
  with d have sci: "SCI ima = [d1, d2, d3]"
    by simp
  have up: "[0 ..< nat (NSAMP ima - 1)] = [0, 1]" "[0 ..< length (SCI ima)] = [0, 1, 2]"
    by (simp_all add: assms(2) len upt_rec numeral_2_eq_2 numeral_3_eq_3)
  define ima' where
    "ima' = ima\<lparr>SCI := [corrected_read round_binary32 reg (Fin 10) d1,
                        corrected_read round_binary32 reg (Fin 10) d2, d3]\<rparr>"
  have run: "normalize_ima round_binary32 reg ima = Inr (ima', [(1, Fin 10), (2, Fin 6)])"
    unfolding normalize_ima_wf [OF assms(1)] up
    by (simp add: sci assms(2,6,7) ima'_def)
  have tc: "total_countrate round_binary32 reg ima = Inr (region_median round_binary32 reg d3)"
    by (simp add: total_countrate_wf [OF assms(1)] sci assms(6,8))
  have c1: "corrected_read round_binary32 reg (Fin 10) d1 = d1"
    using assms(6) binary32_exact(1) assms(9) by (rule reference_unchanged(2))
  have "fsub round_binary32 (Fin 10) (Fin 6) = Fin 4"
    using binary32_exact(2) by (simp add: exact_def)
  then have c2: "corrected_read round_binary32 reg (Fin 10) d2
      = add_scalar round_binary32 d2 (Fin 4)"
    by (simp only: corrected_read_def assms(7))
  have g: "get_sci ima' 1 = Inr d1" "get_sci ima' 2 = Inr (add_scalar round_binary32 d2 (Fin 4))"
    "get_sci ima' 3 = Inr d3"
    by (simp_all add: get_sci_def ima'_def c1 c2)
  have "3 \<notin> fst ` set [(1::nat, Fin 10), (2, Fin 6)]" by simp
  with run tc g show ?thesis by blast
qed

theorem scenario_result_witness:
  "well_formed scenario_ramp \<and> NSAMP scenario_ramp = 3
   \<and> get_sci scenario_ramp 1 = Inr read_10 \<and> get_sci scenario_ramp 2 = Inr read_6
   \<and> get_sci scenario_ramp 3 = Inr read_flat_10
   \<and> region_median round_binary32 scenario_region read_10 = Fin 10
   \<and> region_median round_binary32 scenario_region read_6 = Fin 6
   \<and> region_median round_binary32 scenario_region read_flat_10 = Fin 10
   \<and> in_format round_binary32 read_10
   \<and> normalize_ima round_binary32 scenario_region scenario_ramp
       = Inr (scenario_corrected, [(1, Fin 10), (2, Fin 6)])
   \<and> get_sci scenario_corrected 2 = Inr (add_scalar round_binary32 read_6 (Fin 4))
   \<and> add_scalar round_binary32 read_6 (Fin 4) = read_6_plus_4"
proof -
  have n: "NSAMP scenario_ramp = 3" by (simp add: scenario_ramp_def)
  have g1: "get_sci scenario_ramp 1 = Inr read_10"
    by (simp add: ramps_get_sci_first)
  from scenario_result [OF ramps_wf(1) n g1 ramps_get_sci(1,2) read_medians(1,2,3)
      reads_in_format(1)]
  have a: "get_sci scenario_corrected 2 = Inr (add_scalar round_binary32 read_6 (Fin 4))"
    by (auto simp: scenario_run)
  then have "add_scalar round_binary32 read_6 (Fin 4) = read_6_plus_4"
    by (simp add: ramps_get_sci)
  with a n g1 show ?thesis
    by (simp add: scenario_run ramps_wf ramps_get_sci read_medians reads_in_format)
qed

subsection \<open>NaN inside the region\<close>

text \<open>
  Claim C4, as the cell has it. Nothing is raised for a region without a finite value:
  on a well-formed file, for every read \<open>k\<close> with \<open>1 \<le> k < NSAMP\<close> whose region
  values are all NaN (or whose region selects nothing), the cell returns a result, reports
  NaN as the median of the read, and stores the read with every pixel NaN, in the shape
  it had.
\<close>

theorem nan_region_propagates:
  assumes "well_formed ima" and "1 \<le> k" and "int k < NSAMP ima"
    and "get_sci ima k = Inr d"
    and "\<forall>v\<in>set (concat (region_data reg d)). v = NaN"
  shows "\<exists>ima' out d'. normalize_ima rnd reg ima = Inr (ima', out)
           \<and> (k, NaN) \<in> set out
           \<and> get_sci ima' k = Inr d'
           \<and> shape d' = shape d
           \<and> (\<forall>row\<in>set d'. \<forall>p\<in>set row. p = NaN)"
proof -
  from assms have d: "d = SCI ima ! (k - 1)"
    by (simp add: get_sci_wf)
  from assms(5) have m: "region_median rnd reg d = NaN"
    by (simp add: region_median_def np_median_def np_median_flat_all_NaN)
  define tc where "tc = region_median rnd reg (SCI ima ! 0)"
  from normalize_ima_read [OF assms(1-3), of rnd reg] obtain ima' out where
    run: "normalize_ima rnd reg ima = Inr (ima', out)"
    and rk: "get_sci ima' k = Inr (corrected_read rnd reg tc d)"
    and pk: "(k, region_median rnd reg d) \<in> set out"
    unfolding d tc_def by blast
  have c: "corrected_read rnd reg tc d = add_scalar rnd d NaN"
    by (simp add: corrected_read_def m fsub_NaN)
  have s: "shape (corrected_read rnd reg tc d) = shape d"
    by (simp add: c shape_add_scalar)
  have a: "\<forall>row\<in>set (corrected_read rnd reg tc d). \<forall>p\<in>set row. p = NaN"
    unfolding c by (rule add_scalar_NaN)
  from run rk pk s a show ?thesis
    unfolding m by blast
qed

theorem nan_region_propagates_witness:
  "well_formed nan_ramp \<and> (1::nat) \<le> 2 \<and> int 2 < NSAMP nan_ramp
   \<and> get_sci nan_ramp 2 = Inr read_nan_region
   \<and> concat (region_data scenario_region read_nan_region) = [NaN, NaN, NaN, NaN]
   \<and> normalize_ima round_binary32 scenario_region nan_ramp = Inr (nan_corrected, [(1, Fin 10), (2, NaN)])
   \<and> get_sci nan_corrected 2 = Inr read_all_nan
   \<and> shape read_all_nan = shape read_nan_region
   \<and> list_all (list_all (\<lambda>p. p = NaN)) read_all_nan"
proof -
  have k: "(1::nat) \<le> 2" "int 2 < NSAMP nan_ramp"
    by (simp_all add: nan_ramp_def)
  have v: "concat (region_data scenario_region read_nan_region) = [NaN, NaN, NaN, NaN]"
    by code_simp
  then have a: "\<forall>v\<in>set (concat (region_data scenario_region read_nan_region)). v = NaN"
    by simp
  from nan_region_propagates [where rnd = round_binary32, OF ramps_wf(5) k ramps_get_sci(9) a]
  have "shape read_all_nan = shape read_nan_region
      \<and> (\<forall>row\<in>set read_all_nan. \<forall>p\<in>set row. p = NaN)"
    by (auto simp: nan_run ramps_get_sci)
  then have "shape read_all_nan = shape read_nan_region
      \<and> list_all (list_all (\<lambda>p. p = NaN)) read_all_nan"
    by (simp add: list_all_iff)
  with ramps_wf(5) k v show ?thesis
    by (simp add: nan_run ramps_get_sci)
qed

text \<open>
  The claim as stated says that the cell fails. On the ramp whose second read has only
  NaN inside the region the cell returns a result: the median printed for read 2 is NaN
  and the read is stored with NaN in every pixel.
\<close>

theorem nan_region_propagates_counterexample:
  "well_formed nan_ramp
   \<and> get_sci nan_ramp 2 = Inr read_nan_region
   \<and> concat (region_data scenario_region read_nan_region) = [NaN, NaN, NaN, NaN]
   \<and> normalize_ima round_binary32 scenario_region nan_ramp = Inr (nan_corrected, [(1, Fin 10), (2, NaN)])
   \<and> get_sci nan_corrected 2 = Inr read_all_nan"
proof -
  have "concat (region_data scenario_region read_nan_region) = [NaN, NaN, NaN, NaN]"
    by code_simp
  then show ?thesis
    by (simp add: nan_run ramps_get_sci ramps_wf)
qed

subsection \<open>Regions that are not valid\<close>

text \<open>
  Claim C5, as the cell has it. No region is rejected: on a well-formed file the cell
  returns a result for every region. A region whose row stop is not negative and not above
  its row start selects nothing, and every printed median is NaN; a stop beyond the end of
  an axis selects up to the end of that axis, as the slice does.
\<close>

theorem invalid_region_not_rejected:
  assumes "well_formed ima"
  shows "\<exists>ima' out. normalize_ima rnd reg ima = Inr (ima', out)
           \<and> (0 \<le> snd (sly reg) \<and> snd (sly reg) \<le> fst (sly reg)
                \<longrightarrow> (\<forall>e\<in>set out. snd e = NaN))
           \<and> (\<forall>d::array2d. int (length d) \<le> snd (sly reg)
                \<longrightarrow> py_slice (sly reg) d = py_slice (fst (sly reg), int (length d)) d)
           \<and> (\<forall>row::fval list. int (length row) \<le> snd (slx reg)
                \<longrightarrow> py_slice (slx reg) row = py_slice (fst (slx reg), int (length row)) row)"
proof -
  define out where
    "out = map (\<lambda>i. (Suc i, region_median rnd reg (SCI ima ! i))) [0 ..< nat (NSAMP ima - 1)]"
  from normalize_ima_wf [OF assms, of rnd reg] obtain ima' where
    run: "normalize_ima rnd reg ima = Inr (ima', out)"
    unfolding out_def by blast
  have a: "0 \<le> snd (sly reg) \<and> snd (sly reg) \<le> fst (sly reg) \<longrightarrow> (\<forall>e\<in>set out. snd e = NaN)"
    by (auto simp: out_def region_median_reversed_rows)
  have b: "\<forall>d::array2d. int (length d) \<le> snd (sly reg)
                \<longrightarrow> py_slice (sly reg) d = py_slice (fst (sly reg), int (length d)) d"
  proof (intro allI impI)
    fix d :: array2d
    assume "int (length d) \<le> snd (sly reg)"
    from py_slice_beyond [OF this, of "fst (sly reg)"] show
      "py_slice (sly reg) d = py_slice (fst (sly reg), int (length d)) d"
      by simp
  qed
  have c: "\<forall>row::fval list. int (length row) \<le> snd (slx reg)
                \<longrightarrow> py_slice (slx reg) row = py_slice (fst (slx reg), int (length row)) row"
  proof (intro allI impI)
    fix row :: "fval list"
    assume "int (length row) \<le> snd (slx reg)"
    from py_slice_beyond [OF this, of "fst (slx reg)"] show
      "py_slice (slx reg) row = py_slice (fst (slx reg), int (length row)) row"
      by simp
  qed
  from run a b c show ?thesis by blast
qed

theorem invalid_region_not_rejected_witness:
  "well_formed scenario_ramp
   \<and> (0::int) \<le> snd (sly ((0, 2), (1, 0))) \<and> snd (sly ((0, 2), (1, 0))) \<le> fst (sly ((0, 2), (1, 0)))
   \<and> normalize_ima round_binary32 ((0, 2), (1, 0)) scenario_ramp
       = Inr (all_nan_corrected, [(1, NaN), (2, NaN)])
   \<and> list_all (\<lambda>e. snd e = NaN) [(1::nat, NaN), (2, NaN)]"
proof -
  have h: "(0::int) \<le> snd (sly ((0, 2), (1, 0)))"
    "snd (sly ((0, 2), (1, 0))) \<le> fst (sly ((0, 2), (1, 0)))"
    by (simp_all add: sly_def)
  from invalid_region_not_rejected
      [where rnd = round_binary32 and reg = "((0, 2), (1, 0))", OF ramps_wf(1)] h
  have "\<forall>e\<in>set [(1::nat, NaN), (2, NaN)]. snd e = NaN"
    by (auto simp: empty_rows_run)
  then have "list_all (\<lambda>e. snd e = NaN) [(1::nat, NaN), (2, NaN)]"
    by (simp add: list_all_iff)
  with ramps_wf(1) h show ?thesis
    by (simp add: empty_rows_run)
qed

text \<open>
  The claim as stated says that the cell fails for such regions. With the row start
  above the row stop, with a row stop far beyond the two rows of the arrays, and with the
  region of the notebook, which lies beyond these small arrays on both axes, the region is
  not within the arrays, and all three runs return a result.
\<close>

theorem invalid_region_not_rejected_counterexample:
  "\<not> region_within ((0, 2), (1, 0)) read_10
   \<and> normalize_ima round_binary32 ((0, 2), (1, 0)) scenario_ramp
       = Inr (all_nan_corrected, [(1, NaN), (2, NaN)])
   \<and> \<not> region_within ((0, 2), (0, 1000)) read_10
   \<and> normalize_ima round_binary32 ((0, 2), (0, 1000)) scenario_ramp
       = Inr (scenario_corrected, [(1, Fin 10), (2, Fin 6)])
   \<and> \<not> region_within stats_region read_10
   \<and> normalize_ima round_binary32 stats_region scenario_ramp
       = Inr (all_nan_corrected, [(1, NaN), (2, NaN)])"
proof -
  have "\<not> region_within ((0, 2), (1, 0)) read_10" "\<not> region_within ((0, 2), (0, 1000)) read_10"
    "\<not> region_within stats_region read_10"
    by (simp_all add: region_within_def sly_def slx_def read_10_def stats_region_def)
  then show ?thesis
    by (simp add: empty_rows_run beyond_rows_run stats_region_run)
qed

subsection \<open>A second run\<close>




subsection \<open>Negative offsets\<close>

text \<open>
  Claim C7, as the cell has it: for every read \<open>k\<close> with \<open>1 \<le> k < NSAMP\<close> of a
  well-formed file whose region median \<open>m\<close> exceeds the countrate \<open>t\<close>, the cell stores
  the read with the offset \<open>t - m\<close> added to every pixel of the whole array, the
  difference and the sums in the arithmetic of the array. At every real pixel for which
  neither operation rounds, the pixel is smaller than before by exactly \<open>m - t\<close>. The
  last read is not among them.
\<close>

theorem negative_offset_decreases:
  assumes "well_formed ima" and "1 \<le> k" and "int k < NSAMP ima"
    and "get_sci ima k = Inr d"
    and "total_countrate rnd reg ima = Inr (Fin t)" and "region_median rnd reg d = Fin m"
    and "t < m"
  shows "\<exists>ima' out d'. normalize_ima rnd reg ima = Inr (ima', out)
           \<and> get_sci ima' k = Inr d'
           \<and> shape d' = shape d
           \<and> (\<forall>r<length d. \<forall>c<length (d ! r).
                 d' ! r ! c = fadd rnd (d ! r ! c) (fsub rnd (Fin t) (Fin m))
               \<and> (\<forall>p. d ! r ! c = Fin p \<and> exact rnd (t - m) \<and> exact rnd (p + (t - m)) \<longrightarrow>
                      d' ! r ! c = Fin (p - (m - t)) \<and> p - (m - t) < p))"
proof -
  from assms have d: "d = SCI ima ! (k - 1)"
    by (simp add: get_sci_wf)
  from assms have tc: "Fin t = region_median rnd reg (SCI ima ! 0)"
    by (simp add: total_countrate_wf)
  from normalize_ima_read [OF assms(1-3), of rnd reg] obtain ima' out where
    run: "normalize_ima rnd reg ima = Inr (ima', out)"
    and rk: "get_sci ima' k = Inr (corrected_read rnd reg (Fin t) d)"
    unfolding d tc by blast
  have s: "shape (corrected_read rnd reg (Fin t) d) = shape d"
    by (simp add: corrected_read_def shape_add_scalar)
  have p: "corrected_read rnd reg (Fin t) d ! r ! c
      = fadd rnd (d ! r ! c) (fsub rnd (Fin t) (Fin m))"
    if "r < length d" and "c < length (d ! r)" for r c
    using that by (simp only: corrected_read_def assms(6) nth_add_scalar)
  have q: "fadd rnd (Fin p) (fsub rnd (Fin t) (Fin m)) = Fin (p - (m - t)) \<and> p - (m - t) < p"
    if "exact rnd (t - m)" and "exact rnd (p + (t - m))" for p
  proof -
    from that have "fadd rnd (Fin p) (fsub rnd (Fin t) (Fin m)) = Fin (p + (t - m))"
      by (simp add: exact_def)
    with assms(7) show ?thesis by (simp add: algebra_simps)
  qed
  have pix: "corrected_read rnd reg (Fin t) d ! r ! c
            = fadd rnd (d ! r ! c) (fsub rnd (Fin t) (Fin m))
        \<and> (\<forall>p. d ! r ! c = Fin p \<and> exact rnd (t - m) \<and> exact rnd (p + (t - m)) \<longrightarrow>
               corrected_read rnd reg (Fin t) d ! r ! c = Fin (p - (m - t)) \<and> p - (m - t) < p)"
    if rc: "r < length d" "c < length (d ! r)" for r c
  proof (rule conjI)
    show "corrected_read rnd reg (Fin t) d ! r ! c
        = fadd rnd (d ! r ! c) (fsub rnd (Fin t) (Fin m))"
      using rc by (rule p)
    show "\<forall>p. d ! r ! c = Fin p \<and> exact rnd (t - m) \<and> exact rnd (p + (t - m)) \<longrightarrow>
        corrected_read rnd reg (Fin t) d ! r ! c = Fin (p - (m - t)) \<and> p - (m - t) < p"
    proof (intro allI impI)
      fix x
      assume a: "d ! r ! c = Fin x \<and> exact rnd (t - m) \<and> exact rnd (x + (t - m))"
      then have "fadd rnd (Fin x) (fsub rnd (Fin t) (Fin m)) = Fin (x - (m - t))
          \<and> x - (m - t) < x"
        using q [of x] by blast
      moreover have "corrected_read rnd reg (Fin t) d ! r ! c
          = fadd rnd (Fin x) (fsub rnd (Fin t) (Fin m))"
        using p [OF rc] a by (simp only:)
      ultimately show "corrected_read rnd reg (Fin t) d ! r ! c = Fin (x - (m - t))
          \<and> x - (m - t) < x"
        by (simp only:)
    qed
  qed
  with run rk s show ?thesis by blast
qed

theorem negative_offset_decreases_witness:
  "well_formed bright_ramp \<and> (1::nat) \<le> 2 \<and> int 2 < NSAMP bright_ramp
   \<and> get_sci bright_ramp 2 = Inr read_10
   \<and> total_countrate round_binary32 scenario_region bright_ramp = Inr (Fin 6)
   \<and> region_median round_binary32 scenario_region read_10 = Fin 10 \<and> (6::real) < 10
   \<and> normalize_ima round_binary32 scenario_region bright_ramp
       = Inr (bright_corrected, [(1, Fin 6), (2, Fin 10)])
   \<and> get_sci bright_corrected 2 = Inr read_10_minus_4
   \<and> shape read_10_minus_4 = shape read_10
   \<and> read_10 ! 1 ! 2 = Fin 60
   \<and> exact round_binary32 (6 - 10) \<and> exact round_binary32 (60 + (6 - 10))
   \<and> read_10_minus_4 ! 1 ! 2 = Fin (60 - (10 - 6))"
proof -
  have k: "(1::nat) \<le> 2" "int 2 < NSAMP bright_ramp"
    by (simp_all add: bright_ramp_def)
  have lt: "(6::real) < 10" by simp
  have r: "1 < length read_10" and c: "2 < length (read_10 ! 1)"
    and p: "read_10 ! 1 ! 2 = Fin 60"
    by (simp_all add: read_10_def)
  have e: "exact round_binary32 (6 - 10)" "exact round_binary32 (60 + (6 - 10))"
    by code_simp+
  from negative_offset_decreases [OF ramps_wf(4) k ramps_get_sci(7) ramps_total_countrate(5)
      read_medians(1) lt]
  obtain ima' out d' where
    run: "normalize_ima round_binary32 scenario_region bright_ramp = Inr (ima', out)"
    and g: "get_sci ima' 2 = Inr d'" and s: "shape d' = shape read_10"
    and px: "\<forall>r<length read_10. \<forall>c<length (read_10 ! r).
            d' ! r ! c = fadd round_binary32 (read_10 ! r ! c)
                           (fsub round_binary32 (Fin 6) (Fin 10))
          \<and> (\<forall>p. read_10 ! r ! c = Fin p \<and> exact round_binary32 (6 - 10)
                \<and> exact round_binary32 (p + (6 - 10)) \<longrightarrow>
                 d' ! r ! c = Fin (p - (10 - 6)) \<and> p - (10 - 6) < p)"
    by blast
  from run have "ima' = bright_corrected"
    by (simp add: bright_run)
  with g have d': "d' = read_10_minus_4"
    by (simp add: ramps_get_sci)
  have h: "read_10 ! 1 ! 2 = Fin 60 \<and> exact round_binary32 (6 - 10)
      \<and> exact round_binary32 (60 + (6 - 10))"
    using p e by (intro conjI)
  from px [THEN spec [where x = 1], THEN mp, OF r, THEN spec [where x = 2], THEN mp, OF c,
      THEN conjunct2, THEN spec [where x = 60], THEN mp, OF h]
  have "d' ! 1 ! 2 = Fin (60 - (10 - 6))"
    by (rule conjunct1)
  with s have "shape read_10_minus_4 = shape read_10
      \<and> read_10_minus_4 ! 1 ! 2 = Fin (60 - (10 - 6))"
    by (simp only: d')
  with ramps_wf(4) k lt p e show ?thesis
    by (simp add: bright_run ramps_get_sci ramps_total_countrate read_medians)
qed

text \<open>
  The claim as stated fails at the last read, and it fails where single precision rounds.
  In the ramp of two reads taken in the other order, read 2 is not the reference read
  and its median 10 exceeds the countrate 6, and the run leaves it as it was instead of
  taking 4 from its pixels. In the ramp with the medians 1 and \<open>2 ^ 25\<close>, read 2 has a
  median that exceeds the countrate by \<open>2 ^ 25 - 1\<close>, and the run takes \<open>2 ^ 25\<close> from
  its pixels.
\<close>

theorem negative_offset_decreases_counterexample:
  "well_formed swapped_ramp \<and> reference_index = 1
   \<and> total_countrate round_binary32 scenario_region swapped_ramp = Inr (Fin 6)
   \<and> get_sci swapped_ramp 2 = Inr read_10
   \<and> region_median round_binary32 scenario_region read_10 = Fin 10 \<and> (6::real) < 10
   \<and> normalize_ima round_binary32 scenario_region swapped_ramp
       = Inr (swapped_ramp, [(1, Fin 6)])
   \<and> read_10 \<noteq> read_10_minus_4
   \<and> well_formed rounding_ramp
   \<and> total_countrate round_binary32 scenario_region rounding_ramp = Inr (Fin 1)
   \<and> get_sci rounding_ramp 2 = Inr read_big
   \<and> region_median round_binary32 scenario_region read_big = Fin 33554432
   \<and> (1::real) < 33554432
   \<and> normalize_ima round_binary32 scenario_region rounding_ramp
       = Inr (rounding_once, [(1, Fin 1), (2, Fin 33554432)])
   \<and> get_sci rounding_once 2 = Inr read_big_once
   \<and> read_big ! 0 ! 0 = Fin 33554432 \<and> read_big_once ! 0 ! 0 = Fin 0
   \<and> (33554432::real) - (33554432 - 1) = 1"
proof -
  have "read_10 \<noteq> read_10_minus_4"
    "read_big ! 0 ! 0 = Fin 33554432" "read_big_once ! 0 ! 0 = Fin 0"
    by (simp_all add: read_10_def read_10_minus_4_def read_big_def read_big_once_def)
  then show ?thesis
    by (simp add: swapped_run rounding_run read_medians reference_index_def ramps_wf
        ramps_get_sci ramps_total_countrate)
qed

subsection \<open>The reference read\<close>

text \<open>
  Claim C9, as the cell has it. On a well-formed file the cell raises nothing. When the
  countrate, the region median of the reference read, is a real number, the offset of the
  reference read is zero and the read, an array of the format in which 0 is a number, is
  stored as it was. When the countrate is NaN or an infinity and the file has more than
  one read, the offset of the reference read is NaN and the read is stored with NaN in
  every pixel. With one read only, the loop does not run and the read stays as it was.
\<close>

theorem reference_read_identity:
  assumes "well_formed ima" and "get_sci ima reference_index = Inr d"
    and "total_countrate rnd reg ima = Inr tc"
  shows "\<exists>ima' out d'. normalize_ima rnd reg ima = Inr (ima', out)
           \<and> get_sci ima' reference_index = Inr d'
           \<and> (\<forall>t. tc = Fin t \<and> exact rnd 0 \<and> in_format rnd d \<longrightarrow>
                 fsub rnd tc (region_median rnd reg d) = Fin 0 \<and> d' = d)
           \<and> ((\<forall>t. tc \<noteq> Fin t) \<and> 1 < NSAMP ima \<longrightarrow>
                 fsub rnd tc (region_median rnd reg d) = NaN \<and> shape d' = shape d
               \<and> (\<forall>row\<in>set d'. \<forall>p\<in>set row. p = NaN))
           \<and> (NSAMP ima = 1 \<longrightarrow> d' = d)"
proof -
  define d' where
    "d' = (if 0 < nat (NSAMP ima - 1) then corrected_read rnd reg tc d else d)"
  define ima' where "ima' = ima\<lparr>SCI := map (\<lambda>j. if j < nat (NSAMP ima - 1)
                                    then corrected_read rnd reg (region_median rnd reg (SCI ima ! 0)) (SCI ima ! j)
                                    else SCI ima ! j)
                              [0 ..< length (SCI ima)]\<rparr>"
  from assms(1) have l: "0 < length (SCI ima)"
    unfolding well_formed_def by linarith
  then have l1: "Suc 0 \<le> length (SCI ima)" by linarith
  from assms(2) l1 have d: "SCI ima ! 0 = d"
    by (simp add: get_sci_def reference_index_def)
  from assms(1,3) have tc: "region_median rnd reg d = tc"
    by (simp add: total_countrate_wf d)
  from normalize_ima_wf [OF assms(1), of rnd reg] obtain out where
    run: "normalize_ima rnd reg ima = Inr (ima', out)"
    unfolding ima'_def by blast
  have "SCI ima' ! 0 = d'"
    using l by (simp add: ima'_def d'_def d tc)
  then have g': "get_sci ima' reference_index = Inr d'"
    using l1 by (simp add: get_sci_def reference_index_def ima'_def)
  have a: "fsub rnd tc (region_median rnd reg d) = Fin 0 \<and> d' = d"
    if "tc = Fin t" and "exact rnd 0" and "in_format rnd d" for t
  proof -
    from tc that(1) have m: "region_median rnd reg d = Fin t" by simp
    from reference_unchanged [OF m that(2,3)] show ?thesis
      by (simp add: d'_def that(1))
  qed
  have b: "fsub rnd tc (region_median rnd reg d) = NaN \<and> shape d' = shape d
      \<and> (\<forall>row\<in>set d'. \<forall>p\<in>set row. p = NaN)"
    if "\<forall>t. tc \<noteq> Fin t" and "1 < NSAMP ima"
  proof -
    from that(1) have z: "fsub rnd tc (region_median rnd reg d) = NaN"
      by (simp add: tc fsub_self_not_finite)
    from that(2) have "d' = corrected_read rnd reg tc d"
      by (simp add: d'_def)
    then have e: "d' = add_scalar rnd d NaN"
      by (simp add: corrected_read_def z)
    show ?thesis
      using add_scalar_NaN [of rnd d] by (simp add: z e shape_add_scalar)
  qed
  have c: "d' = d" if "NSAMP ima = 1"
    using that by (simp add: d'_def)
  from run g' a b c show ?thesis by blast
qed

theorem reference_read_identity_witness:
  "well_formed scenario_ramp
   \<and> get_sci scenario_ramp reference_index = Inr read_10
   \<and> total_countrate round_binary32 scenario_region scenario_ramp = Inr (Fin 10)
   \<and> exact round_binary32 0 \<and> in_format round_binary32 read_10
   \<and> normalize_ima round_binary32 scenario_region scenario_ramp
       = Inr (scenario_corrected, [(1, Fin 10), (2, Fin 6)])
   \<and> get_sci scenario_corrected reference_index = Inr read_10
   \<and> fsub round_binary32 (Fin 10) (region_median round_binary32 scenario_region read_10) = Fin 0
   \<and> well_formed nan_reference_ramp \<and> 1 < NSAMP nan_reference_ramp
   \<and> get_sci nan_reference_ramp reference_index = Inr read_one_nan
   \<and> total_countrate round_binary32 scenario_region nan_reference_ramp = Inr NaN
   \<and> normalize_ima round_binary32 scenario_region nan_reference_ramp
       = Inr (nan_reference_corrected, [(1, NaN)])
   \<and> get_sci nan_reference_corrected reference_index = Inr read_all_nan
   \<and> shape read_all_nan = shape read_one_nan
   \<and> list_all (list_all (\<lambda>p. p = NaN)) read_all_nan
   \<and> well_formed single_read_ramp \<and> NSAMP single_read_ramp = 1
   \<and> get_sci single_read_ramp reference_index = Inr read_10
   \<and> normalize_ima round_binary32 scenario_region single_read_ramp = Inr (single_read_ramp, [])"
proof -
  have g: "get_sci scenario_ramp reference_index = Inr read_10"
    "get_sci scenario_corrected reference_index = Inr read_10"
    "get_sci nan_reference_ramp reference_index = Inr read_one_nan"
    "get_sci nan_reference_corrected reference_index = Inr read_all_nan"
    "get_sci single_read_ramp reference_index = Inr read_10"
    by (simp_all add: reference_index_def ramps_get_sci_first single_read_facts)
  from reference_read_identity [OF ramps_wf(1) g(1) ramps_total_countrate(1)]
  have "\<forall>t. Fin 10 = Fin t \<and> exact round_binary32 0 \<and> in_format round_binary32 read_10 \<longrightarrow>
          fsub round_binary32 (Fin 10) (region_median round_binary32 scenario_region read_10)
            = Fin 0"
    by (simp add: scenario_run g)
  with binary32_exact(1) reads_in_format(1)
  have a: "fsub round_binary32 (Fin 10) (region_median round_binary32 scenario_region read_10)
      = Fin 0"
    by blast
  have n: "1 < NSAMP nan_reference_ramp"
    by (simp add: nan_reference_ramp_def)
  have nf: "\<forall>t. NaN \<noteq> Fin t" by simp
  from reference_read_identity [OF ramps_wf(6) g(3) ramps_total_countrate(6)]
  have "(\<forall>t. NaN \<noteq> Fin t) \<and> 1 < NSAMP nan_reference_ramp \<longrightarrow>
          shape read_all_nan = shape read_one_nan
        \<and> (\<forall>row\<in>set read_all_nan. \<forall>p\<in>set row. p = NaN)"
    by (simp add: nan_reference_run g)
  with nf n have "shape read_all_nan = shape read_one_nan
        \<and> (\<forall>row\<in>set read_all_nan. \<forall>p\<in>set row. p = NaN)"
    by blast
  then have b: "shape read_all_nan = shape read_one_nan
        \<and> list_all (list_all (\<lambda>p. p = NaN)) read_all_nan"
    by (simp add: list_all_iff)
  from reference_read_identity [OF single_read_facts(1) g(5) single_read_facts(4)]
  have c: "get_sci single_read_ramp reference_index = Inr read_10"
    by (auto simp: single_read_run single_read_facts(2))
  from a b c ramps_wf(1,6) n g show ?thesis
    by (simp add: scenario_run nan_reference_run single_read_run ramps_total_countrate
        binary32_exact reads_in_format single_read_facts)
qed

text \<open>
  The claim as stated has the offset of the reference read at zero and the read
  unmodified without a condition. With one NaN inside the region of the reference read the
  countrate is NaN; with positive infinities in its region the countrate is an infinity.
  In both runs the offset of the reference read is NaN, and the read is stored with NaN
  in every pixel.
\<close>

theorem reference_read_identity_counterexample:
  "well_formed nan_reference_ramp
   \<and> get_sci nan_reference_ramp reference_index = Inr read_one_nan
   \<and> total_countrate round_binary32 scenario_region nan_reference_ramp = Inr NaN
   \<and> fsub round_binary32 NaN (region_median round_binary32 scenario_region read_one_nan) = NaN
   \<and> normalize_ima round_binary32 scenario_region nan_reference_ramp
       = Inr (nan_reference_corrected, [(1, NaN)])
   \<and> get_sci nan_reference_corrected reference_index = Inr read_all_nan
   \<and> read_all_nan \<noteq> read_one_nan
   \<and> well_formed inf_reference_ramp
   \<and> get_sci inf_reference_ramp reference_index = Inr read_inf
   \<and> total_countrate round_binary32 scenario_region inf_reference_ramp = Inr PInf
   \<and> fsub round_binary32 PInf (region_median round_binary32 scenario_region read_inf) = NaN
   \<and> normalize_ima round_binary32 scenario_region inf_reference_ramp
       = Inr (nan_reference_corrected, [(1, PInf)])
   \<and> read_all_nan \<noteq> read_inf"
proof -
  have "read_all_nan \<noteq> read_one_nan" "read_all_nan \<noteq> read_inf"
    by (simp_all add: read_all_nan_def read_one_nan_def read_inf_def)
  then show ?thesis
    by (simp add: nan_reference_run inf_reference_run reference_index_def ramps_get_sci_first
        ramps_wf ramps_total_countrate read_medians)
qed

subsection \<open>Shape and frame\<close>

text \<open>
  Claim C8 (shape preservation). On a well-formed file the cell returns a result, and
  whenever it returns one, the output holds as many reads as the input, in the same
  positions, and every output read has the shape of the input read at its position: the
  same number of rows and the same length of every row.
\<close>

theorem shape_preservation:
  "(well_formed ima \<longrightarrow> (\<exists>st. normalize_ima rnd reg ima = Inr st))
   \<and> (\<forall>ima' out. normalize_ima rnd reg ima = Inr (ima', out) \<longrightarrow>
          length (SCI ima') = length (SCI ima)
        \<and> (\<forall>k<length (SCI ima). shape (SCI ima' ! k) = shape (SCI ima ! k)
                                   \<and> length (SCI ima' ! k) = length (SCI ima ! k)))"
proof (intro conjI impI allI)
  assume "well_formed ima"
  then show "\<exists>st. normalize_ima rnd reg ima = Inr st"
    by (simp add: normalize_ima_wf)
next
  fix ima' out
  assume "normalize_ima rnd reg ima = Inr (ima', out)"
  then have m: "map shape (SCI ima') = map shape (SCI ima)"
    by (simp add: normalize_ima_preserves)
  then show len: "length (SCI ima') = length (SCI ima)"
    by (rule map_eq_imp_length_eq)
  fix k assume k: "k < length (SCI ima)"
  from m have "map shape (SCI ima') ! k = map shape (SCI ima) ! k" by simp
  with k len show s: "shape (SCI ima' ! k) = shape (SCI ima ! k)" by simp
  then have "length (shape (SCI ima' ! k)) = length (shape (SCI ima ! k))" by simp
  then show "length (SCI ima' ! k) = length (SCI ima ! k)"
    by (simp add: shape_def)
qed

theorem shape_preservation_witness:
  "well_formed scenario_ramp
   \<and> normalize_ima round_binary32 scenario_region scenario_ramp = Inr (scenario_corrected, [(1, Fin 10), (2, Fin 6)])
   \<and> length (SCI scenario_corrected) = length (SCI scenario_ramp)
   \<and> shape read_6_plus_4 = shape read_6"
proof -
  have k: "1 < length (SCI scenario_ramp)"
    by (simp add: scenario_ramp_def)
  from shape_preservation
      [where rnd = round_binary32 and reg = scenario_region and ima = scenario_ramp]
    scenario_run k
  have "length (SCI scenario_corrected) = length (SCI scenario_ramp)
      \<and> shape (SCI scenario_corrected ! 1) = shape (SCI scenario_ramp ! 1)"
    by blast
  then have "length (SCI scenario_corrected) = length (SCI scenario_ramp)
      \<and> shape read_6_plus_4 = shape read_6"
    by (simp add: scenario_corrected_def scenario_ramp_def)
  with ramps_wf(1) scenario_run show ?thesis by simp
qed

text \<open>
  Claim C10 (the last extension). The loop runs over the extensions 1 to \<open>NSAMP - 1\<close>:
  on a well-formed file the cell returns a result, and whenever it returns one, extension
  \<open>NSAMP\<close> is what it was before, the printed lines are those of the extensions
  1 to \<open>NSAMP - 1\<close> in this order, and none of them is a line for extension \<open>NSAMP\<close>.
\<close>

theorem last_read_untouched:
  "(well_formed ima \<longrightarrow> (\<exists>st. normalize_ima rnd reg ima = Inr st))
   \<and> (\<forall>ima' out. normalize_ima rnd reg ima = Inr (ima', out) \<longrightarrow>
          get_sci ima' (nat (NSAMP ima)) = get_sci ima (nat (NSAMP ima))
        \<and> map fst out = [1 ..< nat (NSAMP ima)]
        \<and> nat (NSAMP ima) \<notin> fst ` set out)"
proof (intro conjI impI allI)
  assume "well_formed ima"
  then show "\<exists>st. normalize_ima rnd reg ima = Inr st"
    by (simp add: normalize_ima_wf)
next
  fix ima' out
  assume run: "normalize_ima rnd reg ima = Inr (ima', out)"
  from normalize_ima_preserves [OF run]
  have m: "map shape (SCI ima') = map shape (SCI ima)"
    and f: "map fst out = map Suc [0 ..< nat (NSAMP ima - 1)]"
    and u: "\<forall>j. \<not> j < nat (NSAMP ima - 1) \<longrightarrow> SCI ima' ! j = SCI ima ! j"
    by simp_all
  from m have len: "length (SCI ima') = length (SCI ima)"
    by (rule map_eq_imp_length_eq)
  have "\<not> nat (NSAMP ima) - 1 < nat (NSAMP ima - 1)" by simp
  with u have "SCI ima' ! (nat (NSAMP ima) - 1) = SCI ima ! (nat (NSAMP ima) - 1)"
    by blast
  with len show "get_sci ima' (nat (NSAMP ima)) = get_sci ima (nat (NSAMP ima))"
    by (simp add: get_sci_def)
  from f show idx: "map fst out = [1 ..< nat (NSAMP ima)]"
    by (cases "1 \<le> NSAMP ima") (simp_all add: map_Suc_upt nat_diff_distrib Suc_nat_eq_nat_zadd1)
  have "set (map fst out) = {1 ..< nat (NSAMP ima)}"
    unfolding idx by simp
  then show "nat (NSAMP ima) \<notin> fst ` set out" by simp
qed

theorem last_read_untouched_witness:
  "well_formed scenario_ramp
   \<and> normalize_ima round_binary32 scenario_region scenario_ramp = Inr (scenario_corrected, [(1, Fin 10), (2, Fin 6)])
   \<and> get_sci scenario_corrected 3 = get_sci scenario_ramp 3
   \<and> 3 \<notin> fst ` set [(1::nat, Fin 10), (2, Fin 6)]"
proof -
  have n: "nat (NSAMP scenario_ramp) = 3"
    by (simp add: scenario_ramp_def)
  from last_read_untouched
      [where rnd = round_binary32 and reg = scenario_region and ima = scenario_ramp]
    scenario_run
  have "get_sci scenario_corrected (nat (NSAMP scenario_ramp)) = get_sci scenario_ramp (nat (NSAMP scenario_ramp))
      \<and> nat (NSAMP scenario_ramp) \<notin> fst ` set [(1::nat, Fin 10), (2, Fin 6)]"
    by blast
  with ramps_wf(1) scenario_run show ?thesis by (simp add: n)
qed

end
